theory Spec2Isabelle
  imports Complex_Main "HOL-Library.AList" "HOL-Library.Word"
begin

section \<open>JavaScript values\<close>

text \<open>
  The values the front end handles come out of \<^verbatim>\<open>JSON.parse\<close> or out of React state.
  Finite numbers are rationals and \<^verbatim>\<open>NaN\<close> is a value of its own (infinities and the
  negative zero are not modelled). Arrays and objects carry the identity of their
  reference, since \<^verbatim>\<open>===\<close> compares references; an object is the list of its own
  properties in insertion order. Text that is only compared with ASCII literals or shown
  is a \<open>string\<close>.
\<close>

datatype jsval =
    JUndefined
  | JNull
  | JBool bool
  | JNum rat
  | JNaN
  | JStr string
  | JArr nat "jsval list"
  | JObj nat "(string \<times> jsval) list"

datatype js_error = TypeError | SyntaxError | SecurityError

type_synonym props = "(string \<times> jsval) list"

text \<open>
  \<^verbatim>\<open>data.key\<close> for a key that no built-in prototype defines (\<^verbatim>\<open>type\<close>, \<^verbatim>\<open>level\<close>,
  \<^verbatim>\<open>message\<close>, \<^verbatim>\<open>headline\<close>, \<^verbatim>\<open>company\<close>, \<^verbatim>\<open>id\<close>): reading a property of
  \<^verbatim>\<open>null\<close> or \<^verbatim>\<open>undefined\<close> throws, an object gives its own property, everything else
  gives \<^verbatim>\<open>undefined\<close>.
\<close>

definition prop_of :: "props \<Rightarrow> string \<Rightarrow> jsval" where
  "prop_of kvs k = (case map_of kvs k of None \<Rightarrow> JUndefined | Some v \<Rightarrow> v)"

fun get_prop :: "jsval \<Rightarrow> string \<Rightarrow> js_error + jsval" where
  "get_prop JUndefined k = Inl TypeError"
| "get_prop JNull k = Inl TypeError"
| "get_prop (JObj r kvs) k = Inr (prop_of kvs k)"
| "get_prop v k = Inr JUndefined"

text \<open>Strict equality \<^verbatim>\<open>===\<close>: \<^verbatim>\<open>NaN\<close> equals nothing, references compare by identity.\<close>

fun strict_eq :: "jsval \<Rightarrow> jsval \<Rightarrow> bool" where
  "strict_eq JNaN b = False"
| "strict_eq a JNaN = False"
| "strict_eq (JObj r kvs) (JObj r' kvs') = (r = r')"
| "strict_eq (JArr r vs) (JArr r' vs') = (r = r')"
| "strict_eq a b = (a = b)"

text \<open>
  A template literal converts each substituted value to a string. On values that come
  from JSON this throws exactly when an object has an own \<^verbatim>\<open>toString\<close> property (which
  cannot be a function), or when an array holds such an element; \<^verbatim>\<open>join\<close> skips
  \<^verbatim>\<open>null\<close> and \<^verbatim>\<open>undefined\<close> elements.
\<close>

fun to_string_throws :: "jsval \<Rightarrow> bool" where
  "to_string_throws (JObj r kvs) = (''toString'' \<in> set (map fst kvs))"
| "to_string_throws (JArr r vs) = list_ex to_string_throws vs"
| "to_string_throws v = False"

text \<open>Decimal rendering of an array index, for the property keys that a spread copies.\<close>

fun dec :: "nat \<Rightarrow> string" where
  "dec n = (if n < 10 then [char_of (48 + n)]
            else dec (n div 10) @ [char_of (48 + n mod 10)])"

declare dec.simps [simp del]

text \<open>
  The own enumerable properties that \<^verbatim>\<open>{...data}\<close> copies: those of an object, the
  indexed elements of an array, the characters of a string, nothing for the other
  primitives.
\<close>

fun spread_props :: "jsval \<Rightarrow> props" where
  "spread_props (JObj r kvs) = kvs"
| "spread_props (JArr r vs) = zip (map dec [0..<length vs]) vs"
| "spread_props (JStr s) = zip (map dec [0..<length s]) (map (\<lambda>c. JStr [c]) s)"
| "spread_props v = []"

text \<open>Defining a property: an existing key keeps its place and takes the new value.\<close>

definition set_prop :: "props \<Rightarrow> string \<times> jsval \<Rightarrow> props" where
  "set_prop kvs kv = AList.update (fst kv) (snd kv) kvs"

section \<open>The WebSocket provider (WebSocketContext.jsx)\<close>

datatype glyph = Siren | WarningSign | Newspaper | CheckMark | YellowCircle | QuestionMark

datatype part = Glyph glyph | Lit string | Sub jsval

datatype toast_kind = ToastError | ToastPlain | ToastSuccess

record toast =
  kind :: toast_kind
  text_parts :: "part list"
  duration :: "nat option"
  icon :: "glyph option"
  style :: "(string \<times> string) list"

datatype log_level = Log | Warn | Err

datatype log_arg = NoArg | ErrArg js_error | ValArg jsval

type_synonym log_entry = "log_level \<times> string \<times> log_arg"

text \<open>
  The state of the provider: the three \<^verbatim>\<open>useState\<close> cells, the closure variable
  \<^verbatim>\<open>ws\<close> of the effect, and what the code hands to its environment: toasts, console
  lines and pending \<^verbatim>\<open>setTimeout\<close> calls (delay in milliseconds, and whether the
  callback announces the attempt before it calls \<^verbatim>\<open>connect\<close>). \<open>scheduled\<close> keeps
  every delay ever passed to \<^verbatim>\<open>setTimeout\<close>, in order.
\<close>

record provider =
  socket :: "nat option"
  isConnected :: bool
  alerts :: "props list"
  ws :: "nat option"
  toasts :: "toast list"
  console :: "log_entry list"
  timers :: "(nat \<times> bool) list"
  scheduled :: "nat list"

definition initial :: provider where
  "initial = \<lparr>socket = None, isConnected = False, alerts = [], ws = None,
               toasts = [], console = [], timers = [], scheduled = []\<rparr>"

definition console_out :: "log_level \<Rightarrow> string \<Rightarrow> log_arg \<Rightarrow> provider \<Rightarrow> provider" where
  "console_out l m a s = s\<lparr>console := console s @ [(l, m, a)]\<rparr>"

definition show_toast :: "toast \<Rightarrow> provider \<Rightarrow> provider" where
  "show_toast t s = s\<lparr>toasts := toasts s @ [t]\<rparr>"

definition setTimeout :: "bool \<Rightarrow> nat \<Rightarrow> provider \<Rightarrow> provider" where
  "setTimeout announce ms s =
     s\<lparr>timers := timers s @ [(ms, announce)], scheduled := scheduled s @ [ms]\<rparr>"

text \<open>
  \<^verbatim>\<open>{ id: Date.now(), ...data, timestamp: new Date().toISOString() }\<close>: the spread
  comes after \<^verbatim>\<open>id\<close>, so an \<^verbatim>\<open>id\<close> of the payload replaces the clock value, and the
  \<^verbatim>\<open>timestamp\<close> comes last, so it replaces one of the payload.
\<close>

definition newAlert :: "int \<Rightarrow> string \<Rightarrow> jsval \<Rightarrow> props" where
  "newAlert now stamp data =
     set_prop (foldl set_prop [(''id'', JNum (of_int now))] (spread_props data))
       (''timestamp'', JStr stamp)"

definition alertMessage :: "jsval \<Rightarrow> jsval \<Rightarrow> part list" where
  "alertMessage level message =
     [Glyph Siren, Lit '' '', Sub level, Lit '' Alert: '', Sub message]"

definition handleAlert :: "int \<Rightarrow> string \<Rightarrow> jsval \<Rightarrow> provider \<Rightarrow> js_error + provider" where
  "handleAlert now stamp data s =
     (case get_prop data ''level'' of Inl e \<Rightarrow> Inl e | Inr level \<Rightarrow>
     (case get_prop data ''message'' of Inl e \<Rightarrow> Inl e | Inr message \<Rightarrow>
      if to_string_throws level \<or> to_string_throws message then Inl TypeError
      else
        (let s1 = s\<lparr>alerts := newAlert now stamp data # take 49 (alerts s)\<rparr>
         in Inr
          (if strict_eq level (JStr ''HIGH'') then
             show_toast \<lparr>kind = ToastError, text_parts = alertMessage level message,
                         duration = Some 6000, icon = None, style = []\<rparr> s1
           else if strict_eq level (JStr ''MEDIUM'') then
             show_toast \<lparr>kind = ToastPlain, text_parts = alertMessage level message,
                         duration = Some 4000, icon = Some WarningSign,
                         style = [(''background'', ''#f59e0b''), (''color'', ''#fff'')]\<rparr> s1
           else
             show_toast \<lparr>kind = ToastSuccess, text_parts = alertMessage level message,
                         duration = None, icon = None, style = []\<rparr> s1))))"

definition handleNewsUpdate :: "jsval \<Rightarrow> provider \<Rightarrow> js_error + provider" where
  "handleNewsUpdate data s =
     (case get_prop data ''headline'' of Inl e \<Rightarrow> Inl e | Inr headline \<Rightarrow>
      if to_string_throws headline then Inl TypeError
      else Inr (show_toast
        \<lparr>kind = ToastPlain, text_parts = [Glyph Newspaper, Lit '' Breaking: '', Sub headline],
         duration = Some 5000, icon = Some Newspaper, style = []\<rparr> s))"

definition handleAnalysisComplete :: "jsval \<Rightarrow> provider \<Rightarrow> js_error + provider" where
  "handleAnalysisComplete data s =
     (case get_prop data ''company'' of Inl e \<Rightarrow> Inl e | Inr company \<Rightarrow>
      if to_string_throws company then Inl TypeError
      else Inr (show_toast
        \<lparr>kind = ToastSuccess,
         text_parts = [Glyph CheckMark, Lit '' Analysis complete for '', Sub company],
         duration = Some 3000, icon = None, style = []\<rparr> s))"

definition handleWebSocketMessage ::
  "int \<Rightarrow> string \<Rightarrow> jsval \<Rightarrow> provider \<Rightarrow> js_error + provider" where
  "handleWebSocketMessage now stamp data s =
     (case get_prop data ''type'' of Inl e \<Rightarrow> Inl e | Inr t \<Rightarrow>
      if strict_eq t (JStr ''alert'') then handleAlert now stamp data s
      else if strict_eq t (JStr ''news_update'') then handleNewsUpdate data s
      else if strict_eq t (JStr ''analysis_complete'') then handleAnalysisComplete data s
      else Inr (console_out Log ''Unknown message type:'' (ValArg t) s))"

text \<open>
  \<^verbatim>\<open>ws.onmessage\<close>: the argument \<open>parsed\<close> is what \<^verbatim>\<open>JSON.parse(event.data)\<close> gives,
  a value or the exception it throws; \<open>now\<close> and \<open>stamp\<close> are what the two reads of the
  clock give if an alert is built. Everything thrown inside the \<^verbatim>\<open>try\<close> is caught and
  logged.
\<close>

definition ws_onmessage :: "js_error + jsval \<Rightarrow> int \<Rightarrow> string \<Rightarrow> provider \<Rightarrow> provider" where
  "ws_onmessage parsed now stamp s =
     (case parsed of
        Inl e \<Rightarrow> console_out Err ''Failed to parse WebSocket message:'' (ErrArg e) s
      | Inr data \<Rightarrow>
          (case handleWebSocketMessage now stamp data s of
             Inl e \<Rightarrow> console_out Err ''Failed to parse WebSocket message:'' (ErrArg e) s
           | Inr s' \<Rightarrow> s'))"

definition ws_onopen :: "provider \<Rightarrow> provider" where
  "ws_onopen s =
     (console_out Log ''WebSocket connected'' NoArg s)\<lparr>isConnected := True, socket := ws s\<rparr>"

definition ws_onclose :: "provider \<Rightarrow> provider" where
  "ws_onclose s =
     setTimeout True 3000
       ((console_out Log ''WebSocket disconnected'' NoArg s)
          \<lparr>isConnected := False, socket := None\<rparr>)"

definition ws_onerror :: "provider \<Rightarrow> provider" where
  "ws_onerror s = console_out Err ''WebSocket error:'' NoArg s"

text \<open>
  \<^verbatim>\<open>connect\<close>: \<open>created\<close> is the outcome of \<^verbatim>\<open>new WebSocket(wsUrl)\<close>, the new socket
  or the exception of the constructor.
\<close>

definition connect :: "js_error + nat \<Rightarrow> provider \<Rightarrow> provider" where
  "connect created s =
     (case created of
        Inr w \<Rightarrow> s\<lparr>ws := Some w\<rparr>
      | Inl e \<Rightarrow> setTimeout False 3000
                  (console_out Err ''WebSocket connection failed:'' (ErrArg e) s))"

text \<open>A pending timer fires: the oldest one, since all delays are equal.\<close>

definition timer_fired :: "js_error + nat \<Rightarrow> provider \<Rightarrow> provider" where
  "timer_fired created s =
     (case timers s of
        [] \<Rightarrow> s
      | (ms, announce) # rest \<Rightarrow>
          connect created
            ((if announce then console_out Log ''Attempting to reconnect...'' NoArg else id)
               (s\<lparr>timers := rest\<rparr>)))"

definition clearAlerts :: "provider \<Rightarrow> provider" where
  "clearAlerts s = s\<lparr>alerts := []\<rparr>"

definition alert_id :: "props \<Rightarrow> jsval" where
  "alert_id a = prop_of a ''id''"

definition removeAlert :: "jsval \<Rightarrow> provider \<Rightarrow> provider" where
  "removeAlert alertId s =
     s\<lparr>alerts := filter (\<lambda>a. \<not> strict_eq (alert_id a) alertId) (alerts s)\<rparr>"

text \<open>The events the provider reacts to, and a run of the event loop over a list of them.\<close>

datatype event =
    Mount "js_error + nat"
  | OnOpen
  | OnMessage "js_error + jsval" int string
  | OnClose
  | OnError
  | TimerFired "js_error + nat"
  | ClearAlerts
  | RemoveAlert jsval

fun step :: "provider \<Rightarrow> event \<Rightarrow> provider" where
  "step s (Mount created) = connect created s"
| "step s OnOpen = ws_onopen s"
| "step s (OnMessage parsed now stamp) = ws_onmessage parsed now stamp s"
| "step s OnClose = ws_onclose s"
| "step s OnError = ws_onerror s"
| "step s (TimerFired created) = timer_fired created s"
| "step s ClearAlerts = clearAlerts s"
| "step s (RemoveAlert alertId) = removeAlert alertId s"

definition run :: "event list \<Rightarrow> provider \<Rightarrow> provider" where
  "run evs s = foldl step s evs"

section \<open>The analysis page (Analysis.jsx) and the API client (api.js)\<close>

text \<open>
  What the user types is a JavaScript string, a sequence of UTF-16 code units. The
  white space that \<^verbatim>\<open>String.prototype.trim\<close> strips is the \<^verbatim>\<open>WhiteSpace\<close> and
  \<^verbatim>\<open>LineTerminator\<close> productions of ECMAScript: TAB, LF, VT, FF, CR, SP, NBSP,
  U+1680, U+2000 to U+200A, U+2028, U+2029, U+202F, U+205F, U+3000 and U+FEFF.
\<close>

type_synonym jsstring = "16 word list"

definition is_white :: "16 word \<Rightarrow> bool" where
  "is_white c =
     (c \<in> {9, 10, 11, 12, 13, 32, 160, 5760, 8232, 8233, 8239, 8287, 12288, 65279}
      \<or> (8192 \<le> c \<and> c \<le> 8202))"

definition trim :: "jsstring \<Rightarrow> jsstring" where
  "trim s = rev (dropWhile is_white (rev (dropWhile is_white s)))"

text \<open>The falsy values: \<^verbatim>\<open>undefined\<close>, \<^verbatim>\<open>null\<close>, \<^verbatim>\<open>false\<close>, \<^verbatim>\<open>0\<close>, \<^verbatim>\<open>NaN\<close>, \<^verbatim>\<open>''\<close>.\<close>

fun truthy :: "jsval \<Rightarrow> bool" where
  "truthy JUndefined = False"
| "truthy JNull = False"
| "truthy (JBool b) = b"
| "truthy (JNum r) = (r \<noteq> 0)"
| "truthy JNaN = False"
| "truthy (JStr s) = (s \<noteq> [])"
| "truthy (JArr r vs) = True"
| "truthy (JObj r kvs) = True"

text \<open>The object \<^verbatim>\<open>{ company: selectedCompany, query: query.trim() }\<close>.\<close>

record payload =
  payload_company :: jsstring
  payload_query :: jsstring

record http_request =
  http_method :: string
  url :: string
  body :: payload

text \<open>\<^verbatim>\<open>apiService.analyzeCompany = (analysisData) => api.post('/analyze', analysisData)\<close>\<close>

definition analyzeCompany :: "payload \<Rightarrow> http_request" where
  "analyzeCompany analysisData = \<lparr>http_method = ''POST'', url = ''/analyze'', body = analysisData\<rparr>"

text \<open>
  A request that was sent and has not settled, under the number of its mutation.
  \<open>left_with\<close> is \<open>None\<close> while the page instance that sent it is mounted; once that
  instance is unmounted it holds the company that was selected then, which is what the
  callbacks of the mutation still refer to.
\<close>

record flight =
  flight_id :: nat
  request :: http_request
  left_with :: "jsstring option"

text \<open>
  The state of the page: its three \<^verbatim>\<open>useState\<close> cells, and the mutation of
  \<^verbatim>\<open>useMutation\<close>. The hook of the mounted instance observes the latest mutation it
  started; \<open>mutation_pending\<close> is the status of that mutation as the observer holds it,
  which changes the moment \<^verbatim>\<open>mutate\<close> is called or the request settles.
  \<open>isPending\<close> is \<^verbatim>\<open>analysisMutation.isPending\<close> as the component read it at its last
  render: the observer tells React about a change with a later notification, so the
  value in the rendered page, and with it the \<^verbatim>\<open>disabled\<close> attribute of the button,
  stays as it was until the component renders again. The requests in flight, the toasts
  and the invalidated query keys belong to the application, not to the instance.
\<close>

record page =
  selectedCompany :: jsstring
  query :: jsstring
  analysisResult :: jsval
  in_flight :: "flight list"
  next_mutation :: nat
  observed :: "nat option"
  mutation_pending :: bool
  isPending :: bool
  page_toasts :: "toast list"
  invalidated :: "jsstring list"

definition page_initial :: page where
  "page_initial = \<lparr>selectedCompany = [], query = [], analysisResult = JNull, in_flight = [],
                    next_mutation = 0, observed = None, mutation_pending = False,
                    isPending = False,
                    page_toasts = [], invalidated = []\<rparr>"

definition page_toast :: "toast_kind \<Rightarrow> part list \<Rightarrow> page \<Rightarrow> page" where
  "page_toast k ps s =
     s\<lparr>page_toasts := page_toasts s @
        [\<lparr>kind = k, text_parts = ps, duration = None, icon = None, style = []\<rparr>]\<rparr>"

text \<open>
  \<^verbatim>\<open>analysisMutation.mutate(data)\<close> runs \<^verbatim>\<open>mutationFn\<close>, which sends the request, and
  makes the observer hold the new mutation as pending. The rendered page is not touched.
\<close>

definition mutate :: "payload \<Rightarrow> page \<Rightarrow> page" where
  "mutate data s =
     s\<lparr>in_flight := in_flight s @
         [\<lparr>flight_id = next_mutation s, request = analyzeCompany data, left_with = None\<rparr>],
       observed := Some (next_mutation s),
       next_mutation := Suc (next_mutation s),
       mutation_pending := True\<rparr>"

definition handleAnalysis :: "page \<Rightarrow> page" where
  "handleAnalysis s =
     (if selectedCompany s = [] then page_toast ToastError [Lit ''Please select a company''] s
      else mutate \<lparr>payload_company = selectedCompany s, payload_query = trim (query s)\<rparr> s)"






text \<open>
  The component renders: it reads the status that the observer holds.
\<close>

definition render :: "page \<Rightarrow> page" where
  "render s = s\<lparr>isPending := mutation_pending s\<rparr>"





section \<open>The badge (ContradictionBadge.jsx)\<close>

text \<open>
  \<^verbatim>\<open>toUpperCase\<close> on ASCII text: the model is exact for strings of ASCII characters,
  which is what the level names are.
\<close>

definition upper_char :: "char \<Rightarrow> char" where
  "upper_char c =
     (if 97 \<le> (of_char c :: nat) \<and> (of_char c :: nat) \<le> 122
      then char_of ((of_char c :: nat) - 32) else c)"

definition toUpperCase :: "string \<Rightarrow> string" where
  "toUpperCase s = map upper_char s"

definition is_ascii :: "string \<Rightarrow> bool" where
  "is_ascii s = list_all (\<lambda>c. (of_char c :: nat) < 128) s"

text \<open>
  \<^verbatim>\<open>level?.toUpperCase()\<close>: \<^verbatim>\<open>undefined\<close> for \<^verbatim>\<open>null\<close> and \<^verbatim>\<open>undefined\<close>, the
  upper-cased text for a string, and a \<^verbatim>\<open>TypeError\<close> for every other value, which has
  no such method.
\<close>

fun level_upper :: "jsval \<Rightarrow> js_error + jsval" where
  "level_upper JUndefined = Inr JUndefined"
| "level_upper JNull = Inr JUndefined"
| "level_upper (JStr s) = Inr (JStr (toUpperCase s))"
| "level_upper v = Inl TypeError"

definition getIcon :: "jsval \<Rightarrow> js_error + glyph" where
  "getIcon level =
     (case level_upper level of
        Inl e \<Rightarrow> Inl e
      | Inr u \<Rightarrow> Inr
          (if strict_eq u (JStr ''HIGH'') then Siren
           else if strict_eq u (JStr ''MEDIUM'') then WarningSign
           else if strict_eq u (JStr ''LOW'') then YellowCircle
           else if strict_eq u (JStr ''NONE'') then CheckMark
           else QuestionMark))"

definition getBadgeClass :: "jsval \<Rightarrow> js_error + string" where
  "getBadgeClass level =
     (case level_upper level of
        Inl e \<Rightarrow> Inl e
      | Inr u \<Rightarrow> Inr
          (if strict_eq u (JStr ''HIGH'') then ''badge badge-high''
           else if strict_eq u (JStr ''MEDIUM'') then ''badge badge-medium''
           else if strict_eq u (JStr ''LOW'') then ''badge badge-low''
           else if strict_eq u (JStr ''NONE'') then ''badge badge-none''
           else ''badge badge-gray''))"

text \<open>
  What React puts into the page. \<open>PercentSpan c\<close> is the inner
  \<^verbatim>\<open>span\<close> whose text is \<^verbatim>\<open>(Math.round(c * 100)%)\<close>; \<open>NumberText\<close> is a number given
  to React as a child, which it prints (also \<^verbatim>\<open>0\<close> and \<^verbatim>\<open>NaN\<close>), while
  \<^verbatim>\<open>null\<close>, \<^verbatim>\<open>undefined\<close>, booleans and the empty string print nothing.
\<close>

datatype node = IconSpan glyph | TextNode string | NumberText jsval | PercentSpan jsval

record badge =
  className :: string
  children :: "node list"

text \<open>\<^verbatim>\<open>{level?.toUpperCase() || 'UNKNOWN'}\<close>\<close>

fun level_text :: "jsval \<Rightarrow> node list" where
  "level_text (JStr s) = (if s \<noteq> [] then [TextNode s] else [TextNode ''UNKNOWN''])"
| "level_text u = [TextNode ''UNKNOWN'']"

text \<open>\<^verbatim>\<open>{confidence && (<span ...>({Math.round(confidence * 100)}%)</span>)}\<close>\<close>

fun confidence_child :: "jsval \<Rightarrow> node list" where
  "confidence_child (JNum r) = (if r \<noteq> 0 then [PercentSpan (JNum r)] else [NumberText (JNum r)])"
| "confidence_child JNaN = [NumberText JNaN]"
| "confidence_child c = (if truthy c then [PercentSpan c] else [])"

text \<open>\<^verbatim>\<open>Math.round\<close> gives the nearest integer, a tie going up.\<close>

definition Math_round :: "rat \<Rightarrow> int" where
  "Math_round x = \<lfloor>x + 1 / 2\<rfloor>"

definition percent :: "rat \<Rightarrow> int" where
  "percent c = Math_round (c * 100)"

text \<open>The default value \<^verbatim>\<open>confidence = null\<close> replaces \<^verbatim>\<open>undefined\<close> only.\<close>

definition ContradictionBadge :: "jsval \<Rightarrow> jsval \<Rightarrow> js_error + badge" where
  "ContradictionBadge level confidence_prop =
     (let confidence = (if confidence_prop = JUndefined then JNull else confidence_prop)
      in case getIcon level of Inl e \<Rightarrow> Inl e | Inr icon_glyph \<Rightarrow>
        (case getBadgeClass level of Inl e \<Rightarrow> Inl e | Inr badgeClass \<Rightarrow>
        (case level_upper level of Inl e \<Rightarrow> Inl e | Inr u \<Rightarrow>
           Inr \<lparr>className = badgeClass,
                children = IconSpan icon_glyph # level_text u @ confidence_child confidence\<rparr>)))"

section \<open>The analyzer of the back end\<close>

text \<open>
  The front end only calls the analyzer over HTTP; the analyzer itself, its reasoning
  gateway and the fallback scorer are not among the sources. This section follows
  sections 3, 4.2, 4.3, 6 and 7 of the specification.
\<close>

datatype contradiction = NONE | LOW | MEDIUM | HIGH

text \<open>
  Modelled from the spec: the failures of the primary reasoning call that section 4.2
  lists, and the errors that \<^verbatim>\<open>analyze\<close> could hand to its caller: the company that
  has no record, of section 7, and a failure of the gateway, which section 7 says is
  never surfaced.
\<close>

datatype gateway_error =
  GatewayTimeout | GatewayMalformed | GatewaySchemaInvalid | GatewayUnconfigured

datatype analysis_error = UnknownCompany | Gateway gateway_error

text \<open>Modelled from the spec: a retrievable passage of a document (the embedding is left out).\<close>

record passage =
  passage_text :: string

text \<open>Modelled from the spec: a news article, with the fields the scorer reads.\<close>

record article =
  article_title :: string
  article_content :: string

text \<open>Modelled from the spec: the record \<^verbatim>\<open>AnalysisResult\<close> of section 3.\<close>

record AnalysisResult =
  company :: string
  query_focus :: "string option"
  contradiction_level :: contradiction
  confidence_score :: rat
  key_contradictions :: "string list"
  analysis_text :: string
  created_at :: nat

text \<open>
  Modelled from the spec: the configuration. The specification gives no values for the
  thresholds, the keyword weights or the confidence of the scorer and asks that they be
  configuration: \<open>min_confidence\<close> holds the thresholds, the least confidence with which
  a level may be reported; \<open>negative\<close> the negative-action keywords, each marked when it
  has the HIGH weight; \<open>commitment\<close> the commitment keywords; \<open>heuristic_confidence\<close>
  the confidence that the scorer computes for a count of flagged articles.
\<close>

record config =
  min_confidence :: "contradiction \<Rightarrow> rat"
  negative :: "(string \<times> bool) list"
  commitment :: "string list"
  heuristic_confidence :: "nat \<Rightarrow> rat"


text \<open>
  Modelled from the spec: the invariant of section 3 on an \<^verbatim>\<open>AnalysisResult\<close>. The
  confidence is within \<open>[0, 1]\<close>; the level is consistent with the confidence under the
  thresholds, read as: the confidence reaches the threshold of the level, and the
  thresholds rise with the level (which \<open>coherent\<close> asks of the configuration);
  contradictions are listed only when the level is not \<open>NONE\<close>.
\<close>

definition well_formed :: "config \<Rightarrow> AnalysisResult \<Rightarrow> bool" where
  "well_formed cfg r =
     (0 \<le> confidence_score r \<and> confidence_score r \<le> 1
      \<and> min_confidence cfg (contradiction_level r) \<le> confidence_score r
      \<and> (key_contradictions r \<noteq> [] \<longrightarrow> contradiction_level r \<noteq> NONE))"

text \<open>
  Modelled from the spec: the structured answer of the external reasoning service before
  validation.
\<close>

record raw_response =
  raw_level :: string
  raw_confidence :: rat
  raw_text :: string
  raw_contradictions :: "string list"

text \<open>Modelled from the spec: the four level names of the response schema.\<close>

definition parse_level :: "string \<Rightarrow> contradiction option" where
  "parse_level s =
     (if s = ''NONE'' then Some NONE else if s = ''LOW'' then Some LOW
      else if s = ''MEDIUM'' then Some MEDIUM else if s = ''HIGH'' then Some HIGH
      else None)"

text \<open>
  Modelled from the spec: the strict validation at the gateway boundary, with a tagged
  result; an answer that breaks the schema or the invariant of the record is rejected.
\<close>

definition validate ::
  "config \<Rightarrow> string \<Rightarrow> string option \<Rightarrow> nat \<Rightarrow> raw_response
     \<Rightarrow> gateway_error + AnalysisResult" where
  "validate cfg c q now raw =
     (case parse_level (raw_level raw) of
        None \<Rightarrow> Inl GatewaySchemaInvalid
      | Some l \<Rightarrow>
          (let r = \<lparr>company = c, query_focus = q, contradiction_level = l,
                    confidence_score = raw_confidence raw,
                    key_contradictions = raw_contradictions raw,
                    analysis_text = raw_text raw, created_at = now\<rparr>
           in if well_formed cfg r then Inr r else Inl GatewaySchemaInvalid))"

text \<open>
  Modelled from the spec: the primary path of the gateway. \<open>primary\<close> is how the external
  call ends, with a failure (time-out, malformed answer, capability not configured) or
  with a structured answer, which is then validated.
\<close>

definition primary_path ::
  "config \<Rightarrow> string \<Rightarrow> string option \<Rightarrow> nat \<Rightarrow> gateway_error + raw_response
     \<Rightarrow> gateway_error + AnalysisResult" where
  "primary_path cfg c q now primary =
     (case primary of Inl e \<Rightarrow> Inl e | Inr raw \<Rightarrow> validate cfg c q now raw)"

text \<open>Modelled from the spec: whether a text contains a keyword.\<close>

fun starts_with :: "string \<Rightarrow> string \<Rightarrow> bool" where
  "starts_with s [] = True"
| "starts_with [] (k # ks) = False"
| "starts_with (c # s) (k # ks) = (c = k \<and> starts_with s ks)"

fun contains :: "string \<Rightarrow> string \<Rightarrow> bool" where
  "contains [] k = (k = [])"
| "contains (c # s) k = (starts_with (c # s) k \<or> contains s k)"

text \<open>
  Modelled from the spec: an article is flagged when its content contains a negative-action
  keyword and some passage of the company contains a commitment keyword.
\<close>

definition flagged :: "config \<Rightarrow> passage list \<Rightarrow> article list \<Rightarrow> article list" where
  "flagged cfg ps arts =
     filter (\<lambda>a. list_ex (\<lambda>k. contains (article_content a) (fst k)) (negative cfg)
                \<and> list_ex (\<lambda>p. list_ex (contains (passage_text p)) (commitment cfg)) ps)
       arts"

text \<open>Modelled from the spec: a flagged article holds a keyword of the HIGH weight.\<close>

definition high_weight :: "config \<Rightarrow> article \<Rightarrow> bool" where
  "high_weight cfg a =
     list_ex (\<lambda>k. snd k \<and> contains (article_content a) (fst k)) (negative cfg)"

text \<open>
  Modelled from the spec: the level from the count of flagged articles, 0 gives
  \<open>NONE\<close>, 4 or more or a HIGH-weight keyword give \<open>HIGH\<close>, 1 gives \<open>LOW\<close>, 2 and 3
  give \<open>MEDIUM\<close>.
\<close>

definition heuristic_level :: "nat \<Rightarrow> bool \<Rightarrow> contradiction" where
  "heuristic_level n heavy =
     (if n = 0 then NONE else if 4 \<le> n \<or> heavy then HIGH
      else if n = 1 then LOW else MEDIUM)"

text \<open>
  Modelled from the spec: the deterministic fallback scorer. Its result has to satisfy
  the same schema as an answer of the primary path, so its confidence is at least the
  threshold of the level it reports; and it is capped at 0.6.
\<close>

definition fallback ::
  "config \<Rightarrow> string \<Rightarrow> string option \<Rightarrow> passage list \<Rightarrow> article list \<Rightarrow> nat
     \<Rightarrow> AnalysisResult" where
  "fallback cfg c q ps arts now =
     (let fl = flagged cfg ps arts;
          l = heuristic_level (length fl) (list_ex (high_weight cfg) fl)
      in \<lparr>company = c, query_focus = q,
          contradiction_level = l,
          confidence_score =
            min (3 / 5) (max (min_confidence cfg l) (heuristic_confidence cfg (length fl))),
          key_contradictions = map article_title fl,
          analysis_text = ''Keyword heuristic (reasoning service unavailable)'',
          created_at = now\<rparr>)"

text \<open>
  Modelled from the spec: \<^verbatim>\<open>assess\<close> of the reasoning gateway, the validated answer of the
  primary path, and the fallback scorer for every failure of it.
\<close>

definition assess ::
  "config \<Rightarrow> string \<Rightarrow> string option \<Rightarrow> passage list \<Rightarrow> article list
     \<Rightarrow> gateway_error + raw_response \<Rightarrow> nat \<Rightarrow> AnalysisResult" where
  "assess cfg c q ps arts primary now =
     (case primary_path cfg c q now primary of
        Inr r \<Rightarrow> r
      | Inl e \<Rightarrow> fallback cfg c q ps arts now)"

text \<open>
  Modelled from the spec: \<^verbatim>\<open>analyze\<close> of section 4.3. \<open>known\<close> holds the names of the
  companies that have a record; \<open>ps\<close> and \<open>arts\<close> are what retrieval gives for the
  company, \<open>primary\<close> is how the primary reasoning call would end. A name without a
  record is the error that is surfaced to the caller; nothing to analyze gives \<open>NONE\<close>
  with confidence 0 and an explanatory text.
\<close>

definition analyze ::
  "string list \<Rightarrow> config \<Rightarrow> string \<Rightarrow> string option \<Rightarrow> passage list \<Rightarrow> article list
     \<Rightarrow> gateway_error + raw_response \<Rightarrow> nat \<Rightarrow> analysis_error + AnalysisResult" where
  "analyze known cfg c q ps arts primary now =
     (if c \<notin> set known then Inl UnknownCompany
      else if ps = [] \<and> arts = [] then
        Inr \<lparr>company = c, query_focus = q, contradiction_level = NONE, confidence_score = 0,
             key_contradictions = [],
             analysis_text = ''No documents or news to analyze'', created_at = now\<rparr>
      else Inr (assess cfg c q ps arts primary now))"

text \<open>
  Modelled from the spec: an example configuration with the keywords that section 4.2
  names; the thresholds, the weights and the confidence per count are not given there.
\<close>

fun example_thresholds :: "contradiction \<Rightarrow> rat" where
  "example_thresholds NONE = 0"
| "example_thresholds LOW = 1 / 5"
| "example_thresholds MEDIUM = 2 / 5"
| "example_thresholds HIGH = 3 / 5"

definition example_config :: config where
  "example_config =
     \<lparr>min_confidence = example_thresholds,
      negative = [(''violation'', False), (''fine'', False), (''lawsuit'', False),
                  (''dumping'', True)],
      commitment = [''pledge'', ''commit'', ''sustainable''],
      heuristic_confidence = (\<lambda>n. of_nat n / 5)\<rparr>"

section \<open>Notions used to state the properties\<close>

text \<open>
  A message that the dispatcher hands to \<open>handleAlert\<close> and that it handles without an
  exception: an object of type \<^verbatim>\<open>alert\<close> whose level and message convert to strings.
\<close>

definition is_alert :: "jsval \<Rightarrow> bool" where
  "is_alert data =
     (case data of
        JObj r kvs \<Rightarrow>
          strict_eq (prop_of kvs ''type'') (JStr ''alert'')
          \<and> \<not> to_string_throws (prop_of kvs ''level'')
          \<and> \<not> to_string_throws (prop_of kvs ''message'')
      | _ \<Rightarrow> False)"

text \<open>A received message with the two clock values read while it is handled.\<close>

definition receive :: "jsval \<times> int \<times> string \<Rightarrow> event" where
  "receive m = (case m of (data, now, stamp) \<Rightarrow> OnMessage (Inr data) now stamp)"

definition built :: "jsval \<times> int \<times> string \<Rightarrow> props" where
  "built m = (case m of (data, now, stamp) \<Rightarrow> newAlert now stamp data)"

text \<open>The requests in flight that the mounted instance of the page has sent.\<close>

definition own_flights :: "page \<Rightarrow> flight list" where
  "own_flights s = filter (\<lambda>f. left_with f = None) (in_flight s)"


text \<open>
  The invariant of the page: the mounted instance has at most one request in flight, the
  mutation that its hook observes is pending exactly while it has one, the hook observes
  that one and no request of an earlier instance, and the numbers of the mutations are
  never used twice.
\<close>

definition single_flight :: "page \<Rightarrow> bool" where
  "single_flight s =
     (length (own_flights s) \<le> 1 \<and> (mutation_pending s \<longleftrightarrow> own_flights s \<noteq> [])
      \<and> (\<forall>f \<in> set (in_flight s). (left_with f = None) = (observed s = Some (flight_id f)))
      \<and> distinct (map flight_id (in_flight s))
      \<and> (\<forall>f \<in> set (in_flight s). flight_id f < next_mutation s))"

section \<open>The alert list is a bounded buffer\<close>

lemma alerts_console_out [simp]: "alerts (console_out l m a s) = alerts s"
  by (simp add: console_out_def)

lemma alerts_show_toast [simp]: "alerts (show_toast t s) = alerts s"
  by (simp add: show_toast_def)

lemma alerts_setTimeout [simp]: "alerts (setTimeout b n s) = alerts s"
  by (simp add: setTimeout_def)

lemma handleAlert_alerts:
  "handleAlert now stamp data s = Inr s' \<Longrightarrow>
     alerts s' = newAlert now stamp data # take 49 (alerts s)"
  by (auto simp: handleAlert_def Let_def split: sum.splits if_splits)

lemma handleNewsUpdate_alerts:
  "handleNewsUpdate data s = Inr s' \<Longrightarrow> alerts s' = alerts s"
  by (auto simp: handleNewsUpdate_def split: sum.splits if_splits)

lemma handleAnalysisComplete_alerts:
  "handleAnalysisComplete data s = Inr s' \<Longrightarrow> alerts s' = alerts s"
  by (auto simp: handleAnalysisComplete_def split: sum.splits if_splits)

lemma handleWebSocketMessage_length:
  "handleWebSocketMessage now stamp data s = Inr s' \<Longrightarrow> length (alerts s) \<le> 50 \<Longrightarrow>
     length (alerts s') \<le> 50"
  by (auto simp: handleWebSocketMessage_def split: sum.splits if_splits
      dest: handleAlert_alerts handleNewsUpdate_alerts handleAnalysisComplete_alerts)

lemma ws_onmessage_length:
  "length (alerts s) \<le> 50 \<Longrightarrow> length (alerts (ws_onmessage parsed now stamp s)) \<le> 50"
  by (auto simp: ws_onmessage_def split: sum.splits dest: handleWebSocketMessage_length)

lemma step_length:
  assumes "length (alerts s) \<le> 50"
  shows "length (alerts (step s ev)) \<le> 50"
proof (cases ev)
  case (OnMessage parsed now stamp)
  with assms show ?thesis by (simp add: ws_onmessage_length)
next
  case (RemoveAlert i)
  have "length (filter (\<lambda>a. \<not> strict_eq (alert_id a) i) (alerts s)) \<le> length (alerts s)"
    by (rule length_filter_le)
  with assms have "length (filter (\<lambda>a. \<not> strict_eq (alert_id a) i) (alerts s)) \<le> 50"
    by linarith
  with RemoveAlert show ?thesis by (simp add: removeAlert_def)
qed (use assms in \<open>auto simp: connect_def ws_onopen_def ws_onclose_def ws_onerror_def
      timer_fired_def clearAlerts_def split: sum.splits list.splits\<close>)

lemma run_length:
  "length (alerts s) \<le> 50 \<Longrightarrow> length (alerts (run evs s)) \<le> 50"
  unfolding run_def by (induction evs arbitrary: s) (simp_all add: step_length)

lemma run_snoc: "run (evs @ [ev]) s = step (run evs s) ev"
  by (simp add: run_def)

lemma receive_alert:
  "is_alert (fst m) \<Longrightarrow> alerts (step s (receive m)) = built m # take 49 (alerts s)"
  by (cases m)
     (auto simp: is_alert_def receive_def built_def ws_onmessage_def handleWebSocketMessage_def
       handleAlert_def Let_def split: jsval.splits)

lemma run_alerts:
  "\<forall>m \<in> set msgs. is_alert (fst m) \<Longrightarrow>
     alerts (run (map receive msgs) initial) = take 50 (rev (map built msgs))"
proof (induction msgs rule: rev_induct)
  case Nil
  show ?case by (simp add: run_def initial_def)
next
  case (snoc m msgs)
  then have "alerts (run (map receive msgs) initial) = take 50 (rev (map built msgs))"
    and "is_alert (fst m)" by simp_all
  then show ?case
    by (simp add: run_snoc receive_alert take_Cons' min_def)
qed

text \<open>
  C1: the alert list of the client is a buffer of capacity 50. After any sequence of
  received alerts, starting from the empty list of the mounted provider, the list holds
  the 50 most recent alerts, the newest first and the others behind it in the order of
  their arrival, most recent first; an alert beyond the fiftieth, the oldest, is dropped.
  Whatever events the provider handles, the list never holds more than 50 entries.
\<close>

theorem alerts_bounded_buffer:
  assumes "\<forall>m \<in> set msgs. is_alert (fst m)"
  shows "alerts (run (map receive msgs) initial) = take 50 (rev (map built msgs))
       \<and> length (alerts (run (map receive msgs) initial)) \<le> 50
       \<and> length (alerts (run evs initial)) \<le> 50"
proof -
  have "length (alerts initial) \<le> 50" by (simp add: initial_def)
  then have "length (alerts (run evs initial)) \<le> 50"
    and "length (alerts (run (map receive msgs) initial)) \<le> 50"
    by (rule run_length)+
  with run_alerts [OF assms] show ?thesis by simp
qed

theorem alerts_bounded_buffer_witness:
  "is_alert (JObj 1 [(''type'', JStr ''alert''), (''level'', JStr ''HIGH'')])
   \<and> is_alert (JObj 2 [(''type'', JStr ''alert''), (''level'', JStr ''LOW'')])
   \<and> alerts (run (map receive
        [(JObj 1 [(''type'', JStr ''alert''), (''level'', JStr ''HIGH'')], 1000, ''t1''),
         (JObj 2 [(''type'', JStr ''alert''), (''level'', JStr ''LOW'')], 2000, ''t2'')]) initial)
     = [[(''id'', JNum 2000), (''type'', JStr ''alert''), (''level'', JStr ''LOW''),
         (''timestamp'', JStr ''t2'')],
        [(''id'', JNum 1000), (''type'', JStr ''alert''), (''level'', JStr ''HIGH''),
         (''timestamp'', JStr ''t1'')]]"
proof -
  have h1: "is_alert (JObj 1 [(''type'', JStr ''alert''), (''level'', JStr ''HIGH'')])"
    and h2: "is_alert (JObj 2 [(''type'', JStr ''alert''), (''level'', JStr ''LOW'')])"
    by (simp_all add: is_alert_def prop_of_def)
  then have h: "\<forall>m \<in> set [(JObj 1 [(''type'', JStr ''alert''), (''level'', JStr ''HIGH'')], 1000::int, ''t1''),
                 (JObj 2 [(''type'', JStr ''alert''), (''level'', JStr ''LOW'')], 2000, ''t2'')].
       is_alert (fst m)"
    by simp
  from alerts_bounded_buffer [OF h, of "[]"] show ?thesis
    using h1 h2 by (simp add: built_def newAlert_def set_prop_def)
qed

section \<open>Dispatch of incoming messages\<close>

lemma get_prop_error: "get_prop data k = Inl e \<Longrightarrow> e = TypeError"
  by (cases data) simp_all

lemma unknown_type:
  assumes "get_prop data ''type'' = Inr t"
    and "\<not> strict_eq t (JStr ''alert'')"
    and "\<not> strict_eq t (JStr ''news_update'')"
    and "\<not> strict_eq t (JStr ''analysis_complete'')"
  shows "ws_onmessage (Inr data) now stamp s
           = s\<lparr>console := console s @ [(Log, ''Unknown message type:'', ValArg t)]\<rparr>"
  using assms by (simp add: ws_onmessage_def handleWebSocketMessage_def console_out_def)

lemma not_alert_keeps_alerts:
  assumes "get_prop data ''type'' = Inr t" and "\<not> strict_eq t (JStr ''alert'')"
  shows "alerts (ws_onmessage (Inr data) now stamp s) = alerts s"
  using assms
  by (auto simp: ws_onmessage_def handleWebSocketMessage_def split: sum.splits
      dest: handleNewsUpdate_alerts handleAnalysisComplete_alerts)

lemma news_update_toast:
  assumes "get_prop data ''type'' = Inr t" and "strict_eq t (JStr ''news_update'')"
    and "get_prop data ''headline'' = Inr headline"
  shows "ws_onmessage (Inr data) now stamp s =
     (if to_string_throws headline
      then s\<lparr>console := console s
              @ [(Err, ''Failed to parse WebSocket message:'', ErrArg TypeError)]\<rparr>
      else s\<lparr>toasts := toasts s @
              [\<lparr>kind = ToastPlain,
                text_parts = [Glyph Newspaper, Lit '' Breaking: '', Sub headline],
                duration = Some 5000, icon = Some Newspaper, style = []\<rparr>]\<rparr>)"
proof -
  from assms(2) have t: "t = JStr ''news_update''" by (cases t) simp_all
  with assms(1,3) show ?thesis
    by (simp add: ws_onmessage_def handleWebSocketMessage_def handleNewsUpdate_def
        show_toast_def console_out_def)
qed

lemma analysis_complete_toast:
  assumes "get_prop data ''type'' = Inr t" and "strict_eq t (JStr ''analysis_complete'')"
    and "get_prop data ''company'' = Inr cname"
  shows "ws_onmessage (Inr data) now stamp s =
     (if to_string_throws cname
      then s\<lparr>console := console s
              @ [(Err, ''Failed to parse WebSocket message:'', ErrArg TypeError)]\<rparr>
      else s\<lparr>toasts := toasts s @
              [\<lparr>kind = ToastSuccess,
                text_parts = [Glyph CheckMark, Lit '' Analysis complete for '', Sub cname],
                duration = Some 3000, icon = None, style = []\<rparr>]\<rparr>)"
proof -
  from assms(2) have t: "t = JStr ''analysis_complete''" by (cases t) simp_all
  with assms(1,3) show ?thesis
    by (simp add: ws_onmessage_def handleWebSocketMessage_def handleAnalysisComplete_def
        show_toast_def console_out_def)
qed

text \<open>
  C5: the handler dispatches on the \<^verbatim>\<open>type\<close> of the message. For every parsed message
  whose \<^verbatim>\<open>type\<close> can be read: the alert list changes only when the type is \<^verbatim>\<open>alert\<close>,
  and an alert that is handled is put in front of the list; a \<^verbatim>\<open>news_update\<close> adds the
  toast with its headline and an \<^verbatim>\<open>analysis_complete\<close> the toast with its company, and
  neither changes anything else (when the headline or the company cannot be converted to
  text, the message leaves one error line on the console instead); any other type adds
  one line to the console and changes nothing else.
\<close>

theorem message_dispatch:
  assumes "get_prop data ''type'' = Inr t"
    and "get_prop data ''headline'' = Inr headline"
    and "get_prop data ''company'' = Inr cname"
  shows "(alerts (ws_onmessage (Inr data) now stamp s) \<noteq> alerts s \<longrightarrow> strict_eq t (JStr ''alert''))
       \<and> (is_alert data \<longrightarrow>
            alerts (ws_onmessage (Inr data) now stamp s) = newAlert now stamp data # take 49 (alerts s))
       \<and> (strict_eq t (JStr ''news_update'') \<and> \<not> to_string_throws headline \<longrightarrow>
            ws_onmessage (Inr data) now stamp s
              = s\<lparr>toasts := toasts s @
                   [\<lparr>kind = ToastPlain,
                     text_parts = [Glyph Newspaper, Lit '' Breaking: '', Sub headline],
                     duration = Some 5000, icon = Some Newspaper, style = []\<rparr>]\<rparr>)
       \<and> (strict_eq t (JStr ''analysis_complete'') \<and> \<not> to_string_throws cname \<longrightarrow>
            ws_onmessage (Inr data) now stamp s
              = s\<lparr>toasts := toasts s @
                   [\<lparr>kind = ToastSuccess,
                     text_parts = [Glyph CheckMark, Lit '' Analysis complete for '', Sub cname],
                     duration = Some 3000, icon = None, style = []\<rparr>]\<rparr>)
       \<and> ((strict_eq t (JStr ''news_update'') \<and> to_string_throws headline)
            \<or> (strict_eq t (JStr ''analysis_complete'') \<and> to_string_throws cname) \<longrightarrow>
            ws_onmessage (Inr data) now stamp s
              = s\<lparr>console := console s
                    @ [(Err, ''Failed to parse WebSocket message:'', ErrArg TypeError)]\<rparr>)
       \<and> (\<not> strict_eq t (JStr ''alert'') \<and> \<not> strict_eq t (JStr ''news_update'')
            \<and> \<not> strict_eq t (JStr ''analysis_complete'') \<longrightarrow>
            ws_onmessage (Inr data) now stamp s
              = s\<lparr>console := console s @ [(Log, ''Unknown message type:'', ValArg t)]\<rparr>)"
proof (intro conjI impI)
  assume "alerts (ws_onmessage (Inr data) now stamp s) \<noteq> alerts s"
  with not_alert_keeps_alerts [OF assms(1)] show "strict_eq t (JStr ''alert'')" by blast
next
  assume "is_alert data"
  then have "alerts (step s (receive (data, now, stamp))) = built (data, now, stamp) # take 49 (alerts s)"
    using receive_alert [of "(data, now, stamp)" s] by simp
  then show "alerts (ws_onmessage (Inr data) now stamp s) = newAlert now stamp data # take 49 (alerts s)"
    by (simp add: receive_def built_def)
next
  assume "strict_eq t (JStr ''news_update'') \<and> \<not> to_string_throws headline"
  with news_update_toast [OF assms(1) _ assms(2), of now stamp s]
  show "ws_onmessage (Inr data) now stamp s
              = s\<lparr>toasts := toasts s @
                   [\<lparr>kind = ToastPlain,
                     text_parts = [Glyph Newspaper, Lit '' Breaking: '', Sub headline],
                     duration = Some 5000, icon = Some Newspaper, style = []\<rparr>]\<rparr>"
    by simp
next
  assume "strict_eq t (JStr ''analysis_complete'') \<and> \<not> to_string_throws cname"
  with analysis_complete_toast [OF assms(1) _ assms(3), of now stamp s]
  show "ws_onmessage (Inr data) now stamp s
              = s\<lparr>toasts := toasts s @
                   [\<lparr>kind = ToastSuccess,
                     text_parts = [Glyph CheckMark, Lit '' Analysis complete for '', Sub cname],
                     duration = Some 3000, icon = None, style = []\<rparr>]\<rparr>"
    by simp
next
  assume "(strict_eq t (JStr ''news_update'') \<and> to_string_throws headline)
            \<or> (strict_eq t (JStr ''analysis_complete'') \<and> to_string_throws cname)"
  with news_update_toast [OF assms(1) _ assms(2), of now stamp s]
    analysis_complete_toast [OF assms(1) _ assms(3), of now stamp s]
  show "ws_onmessage (Inr data) now stamp s
              = s\<lparr>console := console s
                    @ [(Err, ''Failed to parse WebSocket message:'', ErrArg TypeError)]\<rparr>"
    by auto
next
  assume "\<not> strict_eq t (JStr ''alert'') \<and> \<not> strict_eq t (JStr ''news_update'')
            \<and> \<not> strict_eq t (JStr ''analysis_complete'')"
  with unknown_type [OF assms(1)] show "ws_onmessage (Inr data) now stamp s
              = s\<lparr>console := console s @ [(Log, ''Unknown message type:'', ValArg t)]\<rparr>"
    by simp
qed

theorem message_dispatch_witness:
  "ws_onmessage (Inr (JObj 3 [(''type'', JStr ''news_update''), (''headline'', JStr ''Fine'')]))
       1000 ''t1'' initial
     = initial\<lparr>toasts :=
         [\<lparr>kind = ToastPlain,
           text_parts = [Glyph Newspaper, Lit '' Breaking: '', Sub (JStr ''Fine'')],
           duration = Some 5000, icon = Some Newspaper, style = []\<rparr>]\<rparr>
   \<and> ws_onmessage (Inr (JObj 4 [(''type'', JStr ''analysis_complete''), (''company'', JStr ''Acme'')]))
       1000 ''t1'' initial
     = initial\<lparr>toasts :=
         [\<lparr>kind = ToastSuccess,
           text_parts = [Glyph CheckMark, Lit '' Analysis complete for '', Sub (JStr ''Acme'')],
           duration = Some 3000, icon = None, style = []\<rparr>]\<rparr>
   \<and> ws_onmessage (Inr (JObj 5 [(''type'', JStr ''heartbeat'')])) 1000 ''t1'' initial
     = initial\<lparr>console := [(Log, ''Unknown message type:'', ValArg (JStr ''heartbeat''))]\<rparr>
   \<and> alerts (ws_onmessage (Inr (JObj 6 [(''type'', JStr ''alert''), (''level'', JStr ''HIGH'')]))
       1000 ''t1'' initial)
     = [newAlert 1000 ''t1'' (JObj 6 [(''type'', JStr ''alert''), (''level'', JStr ''HIGH'')])]"
proof -
  have n: "get_prop (JObj 3 [(''type'', JStr ''news_update''), (''headline'', JStr ''Fine'')]) ''type''
        = Inr (JStr ''news_update'')"
    "get_prop (JObj 3 [(''type'', JStr ''news_update''), (''headline'', JStr ''Fine'')]) ''headline''
        = Inr (JStr ''Fine'')"
    "get_prop (JObj 3 [(''type'', JStr ''news_update''), (''headline'', JStr ''Fine'')]) ''company''
        = Inr JUndefined"
    by (simp_all add: prop_of_def)
  have a: "get_prop (JObj 4 [(''type'', JStr ''analysis_complete''), (''company'', JStr ''Acme'')]) ''type''
        = Inr (JStr ''analysis_complete'')"
    "get_prop (JObj 4 [(''type'', JStr ''analysis_complete''), (''company'', JStr ''Acme'')]) ''headline''
        = Inr JUndefined"
    "get_prop (JObj 4 [(''type'', JStr ''analysis_complete''), (''company'', JStr ''Acme'')]) ''company''
        = Inr (JStr ''Acme'')"
    by (simp_all add: prop_of_def)
  have u: "get_prop (JObj 5 [(''type'', JStr ''heartbeat'')]) ''type'' = Inr (JStr ''heartbeat'')"
    "get_prop (JObj 5 [(''type'', JStr ''heartbeat'')]) ''headline'' = Inr JUndefined"
    "get_prop (JObj 5 [(''type'', JStr ''heartbeat'')]) ''company'' = Inr JUndefined"
    by (simp_all add: prop_of_def)
  have l: "get_prop (JObj 6 [(''type'', JStr ''alert''), (''level'', JStr ''HIGH'')]) ''type''
        = Inr (JStr ''alert'')"
    "get_prop (JObj 6 [(''type'', JStr ''alert''), (''level'', JStr ''HIGH'')]) ''headline''
        = Inr JUndefined"
    "get_prop (JObj 6 [(''type'', JStr ''alert''), (''level'', JStr ''HIGH'')]) ''company''
        = Inr JUndefined"
    "is_alert (JObj 6 [(''type'', JStr ''alert''), (''level'', JStr ''HIGH'')])"
    by (simp_all add: prop_of_def is_alert_def)
  from message_dispatch [OF n, of 1000 "''t1''" initial]
    message_dispatch [OF a, of 1000 "''t1''" initial]
    message_dispatch [OF u, of 1000 "''t1''" initial]
    message_dispatch [OF l(1,2,3), of 1000 "''t1''" initial] l(4)
  show ?thesis by (simp add: initial_def)
qed

text \<open>
  C9: a message that is not valid JSON is absorbed. The exception of \<^verbatim>\<open>JSON.parse\<close> is
  caught and logged as an error; the alert list, the connection flag, the socket and the
  toasts stay as they were, and the handler returns a state, so nothing propagates out
  of it.
\<close>

theorem invalid_json_absorbed:
  "ws_onmessage (Inl e) now stamp s
     = s\<lparr>console := console s @ [(Err, ''Failed to parse WebSocket message:'', ErrArg e)]\<rparr>
   \<and> alerts (ws_onmessage (Inl e) now stamp s) = alerts s
   \<and> isConnected (ws_onmessage (Inl e) now stamp s) = isConnected s
   \<and> socket (ws_onmessage (Inl e) now stamp s) = socket s
   \<and> toasts (ws_onmessage (Inl e) now stamp s) = toasts s"
  by (simp add: ws_onmessage_def console_out_def)

lemma removeAlert_idem: "removeAlert i (removeAlert i s) = removeAlert i s"
  by (simp add: removeAlert_def)

lemma removeAlert_absent:
  "\<forall>a \<in> set (alerts s). \<not> strict_eq (alert_id a) i \<Longrightarrow> removeAlert i s = s"
  by (simp add: removeAlert_def)

lemma removeAlert_all:
  "a \<in> set (alerts (removeAlert i s)) \<longleftrightarrow> a \<in> set (alerts s) \<and> \<not> strict_eq (alert_id a) i"
  by (simp add: removeAlert_def)

lemma map_of_set_prop: "map_of (set_prop kvs kv) = (map_of kvs)(fst kv \<mapsto> snd kv)"
  by (simp add: set_prop_def update_conv')

lemma map_of_foldl_set_prop:
  "k \<notin> fst ` set kvs' \<Longrightarrow> map_of (foldl set_prop kvs kvs') k = map_of kvs k"
  by (induction kvs' arbitrary: kvs) (auto simp: map_of_set_prop)

lemma newAlert_clock_id:
  "''id'' \<notin> fst ` set (spread_props data) \<Longrightarrow> alert_id (newAlert now stamp data) = JNum (of_int now)"
  by (simp add: alert_id_def prop_of_def newAlert_def map_of_set_prop map_of_foldl_set_prop)

lemma strict_eq_num: "strict_eq (JNum a) (JNum b) \<longleftrightarrow> a = b"
  by simp

text \<open>
  C8, as amended: \<open>removeAlert\<close> removes every alert whose id is strictly equal to the
  argument; doing it twice is doing it once; removing an id that no alert has changes
  nothing. Two alerts built in the same millisecond from payloads that have no \<^verbatim>\<open>id\<close>
  property of their own share the clock value as id, and one call with that id removes
  both.
\<close>

theorem removeAlert_idempotent:
  "alerts (removeAlert i s) = filter (\<lambda>a. \<not> strict_eq (alert_id a) i) (alerts s)
   \<and> removeAlert i (removeAlert i s) = removeAlert i s
   \<and> ((\<forall>a \<in> set (alerts s). \<not> strict_eq (alert_id a) i) \<longrightarrow> removeAlert i s = s)
   \<and> (''id'' \<notin> fst ` set (spread_props d1) \<and> ''id'' \<notin> fst ` set (spread_props d2) \<longrightarrow>
        alert_id (newAlert now stamp1 d1) = alert_id (newAlert now stamp2 d2)
        \<and> newAlert now stamp1 d1 \<notin> set (alerts (removeAlert (JNum (of_int now)) s))
        \<and> newAlert now stamp2 d2 \<notin> set (alerts (removeAlert (JNum (of_int now)) s)))"
  using removeAlert_absent [of s i]
  by (simp add: removeAlert_idem removeAlert_all newAlert_clock_id) (simp add: removeAlert_def)

theorem removeAlert_idempotent_witness:
  "''id'' \<notin> fst ` set (spread_props (JObj 1 [(''type'', JStr ''alert''), (''level'', JStr ''HIGH'')]))
   \<and> ''id'' \<notin> fst ` set (spread_props (JObj 2 [(''type'', JStr ''alert''), (''level'', JStr ''LOW'')]))
   \<and> removeAlert (JNum 1000) initial = initial
   \<and> alert_id (newAlert 1000 ''t1'' (JObj 1 [(''type'', JStr ''alert''), (''level'', JStr ''HIGH'')]))
       = alert_id (newAlert 1000 ''t2'' (JObj 2 [(''type'', JStr ''alert''), (''level'', JStr ''LOW'')]))
   \<and> alerts (run [OnMessage (Inr (JObj 1 [(''type'', JStr ''alert''), (''level'', JStr ''HIGH'')])) 1000 ''t1'',
                   OnMessage (Inr (JObj 2 [(''type'', JStr ''alert''), (''level'', JStr ''LOW'')])) 1000 ''t2'',
                   RemoveAlert (JNum 1000)] initial) = []"
proof -
  have h: "''id'' \<notin> fst ` set (spread_props (JObj 1 [(''type'', JStr ''alert''), (''level'', JStr ''HIGH'')]))
     \<and> ''id'' \<notin> fst ` set (spread_props (JObj 2 [(''type'', JStr ''alert''), (''level'', JStr ''LOW'')]))"
    by simp
  have e: "\<forall>a \<in> set (alerts initial). \<not> strict_eq (alert_id a) (JNum 1000)"
    by (simp add: initial_def)
  have r: "alerts (run [OnMessage (Inr (JObj 1 [(''type'', JStr ''alert''), (''level'', JStr ''HIGH'')])) 1000 ''t1'',
                   OnMessage (Inr (JObj 2 [(''type'', JStr ''alert''), (''level'', JStr ''LOW'')])) 1000 ''t2'',
                   RemoveAlert (JNum 1000)] initial) = []"
    by (simp add: run_def initial_def ws_onmessage_def handleWebSocketMessage_def handleAlert_def
        prop_of_def removeAlert_def alert_id_def newAlert_def set_prop_def show_toast_def Let_def)
  from removeAlert_idempotent [of "JNum 1000" initial
      "JObj 1 [(''type'', JStr ''alert''), (''level'', JStr ''HIGH'')]"
      "JObj 2 [(''type'', JStr ''alert''), (''level'', JStr ''LOW'')]" 1000 "''t1''" "''t2''"]
  show ?thesis using h e r by simp
qed

text \<open>
  The ids do not always come from the clock: the payload is spread after the \<^verbatim>\<open>id\<close>
  property, so an \<^verbatim>\<open>id\<close> in the payload wins. Two alerts received in the same
  millisecond with the ids 1 and 2 keep them, and removing 1 leaves the other.
\<close>

theorem same_millisecond_counterexample:
  "map alert_id (alerts (run
      [OnMessage (Inr (JObj 1 [(''type'', JStr ''alert''), (''id'', JNum 1)])) 1000 ''t1'',
       OnMessage (Inr (JObj 2 [(''type'', JStr ''alert''), (''id'', JNum 2)])) 1000 ''t2''] initial))
     = [JNum 2, JNum 1]
   \<and> map alert_id (alerts (run
      [OnMessage (Inr (JObj 1 [(''type'', JStr ''alert''), (''id'', JNum 1)])) 1000 ''t1'',
       OnMessage (Inr (JObj 2 [(''type'', JStr ''alert''), (''id'', JNum 2)])) 1000 ''t2'',
       RemoveAlert (JNum 1)] initial))
     = [JNum 2]"
  by (simp add: run_def initial_def ws_onmessage_def handleWebSocketMessage_def handleAlert_def
      prop_of_def removeAlert_def alert_id_def newAlert_def set_prop_def show_toast_def Let_def)

section \<open>Reconnection\<close>

lemma scheduled_console_out [simp]: "scheduled (console_out l m a s) = scheduled s"
  by (simp add: console_out_def)

lemma scheduled_show_toast [simp]: "scheduled (show_toast t s) = scheduled s"
  by (simp add: show_toast_def)

lemma scheduled_setTimeout [simp]: "scheduled (setTimeout b n s) = scheduled s @ [n]"
  by (simp add: setTimeout_def)

lemma scheduled_onmessage [simp]: "scheduled (ws_onmessage parsed now stamp s) = scheduled s"
  by (auto simp: ws_onmessage_def handleWebSocketMessage_def handleAlert_def
      handleNewsUpdate_def handleAnalysisComplete_def Let_def split: sum.splits)

lemma scheduled_connect [simp]:
  "scheduled (connect created s)
     = scheduled s @ (case created of Inl e \<Rightarrow> [3000] | Inr w \<Rightarrow> [])"
  by (simp add: connect_def split: sum.splits)

lemma scheduled_timer_fired:
  "scheduled (timer_fired created s) = scheduled s
   \<or> scheduled (timer_fired created s) = scheduled s @ [3000]"
  by (cases "timers s"; cases created) (auto simp: timer_fired_def split: if_splits)

lemma scheduled_step:
  "scheduled (step s ev) = scheduled s \<or> scheduled (step s ev) = scheduled s @ [3000]"
  using scheduled_timer_fired [of _ s]
  by (cases ev)
     (auto simp: ws_onopen_def ws_onclose_def ws_onerror_def clearAlerts_def removeAlert_def
       split: sum.splits)

lemma scheduled_run:
  "\<forall>d \<in> set (scheduled s). d = 3000 \<Longrightarrow> \<forall>d \<in> set (scheduled (run evs s)). d = 3000"
proof (induction evs arbitrary: s)
  case Nil
  then show ?case by (simp add: run_def)
next
  case (Cons ev evs)
  from scheduled_step [of s ev] Cons.prems
  have "\<forall>d \<in> set (scheduled (step s ev)). d = 3000" by auto
  from Cons.IH [OF this] show ?case by (simp add: run_def)
qed

text \<open>
  C2, as amended: after a close of the connection, and after a constructor that throws,
  the client schedules one reconnection attempt with \<^verbatim>\<open>setTimeout\<close>, always 3000
  milliseconds later. Whatever the events and however many attempts failed in a row,
  every delay ever scheduled is 3000: there is no backoff.
\<close>

theorem reconnect_fixed_delay:
  "scheduled (ws_onclose s) = scheduled s @ [3000]
   \<and> timers (ws_onclose s) = timers s @ [(3000, True)]
   \<and> scheduled (connect (Inl e) s) = scheduled s @ [3000]
   \<and> timers (connect (Inl e) s) = timers s @ [(3000, False)]
   \<and> (\<forall>d \<in> set (scheduled (run evs initial)). d = 3000)"
proof -
  have "\<forall>d \<in> set (scheduled initial). d = 3000" by (simp add: initial_def)
  from scheduled_run [OF this, of evs] show ?thesis
    by (simp add: ws_onclose_def connect_def setTimeout_def console_out_def)
qed

theorem reconnect_fixed_delay_witness:
  "scheduled (ws_onclose initial) = [3000]
   \<and> timers (ws_onclose initial) = [(3000, True)]
   \<and> scheduled (connect (Inl SecurityError) initial) = [3000]
   \<and> set (scheduled (run [Mount (Inr 1), OnClose, TimerFired (Inr 2), OnClose,
        TimerFired (Inl SecurityError)] initial)) \<subseteq> {3000}"
  using reconnect_fixed_delay [of initial SecurityError
      "[Mount (Inr 1), OnClose, TimerFired (Inr 2), OnClose, TimerFired (Inl SecurityError)]"]
  by (auto simp: initial_def)

text \<open>
  Three attempts that fail one after the other are scheduled with the delays 3000, 3000
  and 3000: the second delay is not longer than the first.
\<close>

theorem reconnect_backoff_counterexample:
  "scheduled (run [Mount (Inr 1), OnClose, TimerFired (Inr 2), OnClose, TimerFired (Inr 3), OnClose]
      initial) = [3000, 3000, 3000]
   \<and> \<not> (scheduled (run [Mount (Inr 1), OnClose, TimerFired (Inr 2), OnClose, TimerFired (Inr 3),
        OnClose] initial) ! 0
        < scheduled (run [Mount (Inr 1), OnClose, TimerFired (Inr 2), OnClose, TimerFired (Inr 3),
        OnClose] initial) ! 1)"
  by (simp add: run_def initial_def connect_def ws_onclose_def timer_fired_def setTimeout_def
      console_out_def)

section \<open>Requests of the analysis page\<close>

lemma rev_dropWhile_split:
  "rev (dropWhile P xs) @ rev (takeWhile P xs) = rev xs"
proof -
  have "rev (takeWhile P xs @ dropWhile P xs) = rev xs" by simp
  then show ?thesis by (simp only: rev_append)
qed

lemma dropWhile_trim:
  "dropWhile is_white s = trim s @ rev (takeWhile is_white (rev (dropWhile is_white s)))"
  using rev_dropWhile_split [of is_white "rev (dropWhile is_white s)"]
  by (simp add: trim_def)

lemma trim_split:
  "s = takeWhile is_white s @ trim s @ rev (takeWhile is_white (rev (dropWhile is_white s)))"
proof -
  have "s = takeWhile is_white s @ dropWhile is_white s" by simp
  with dropWhile_trim [of s] show ?thesis by simp
qed

lemma trim_last: "trim s \<noteq> [] \<Longrightarrow> \<not> is_white (last (trim s))"
  by (simp add: trim_def last_rev hd_dropWhile)

lemma trim_hd:
  assumes "trim s \<noteq> []"
  shows "\<not> is_white (hd (trim s))"
proof -
  let ?d = "dropWhile is_white s"
  let ?post = "rev (takeWhile is_white (rev ?d))"
  have d: "?d = trim s @ ?post" by (rule dropWhile_trim)
  have "?d \<noteq> []"
  proof
    assume e: "?d = []"
    have "trim s = rev (dropWhile is_white (rev ?d))" by (simp only: trim_def)
    also have "\<dots> = []" by (simp only: e rev.simps dropWhile.simps)
    finally show False using assms by simp
  qed
  then have "\<not> is_white (hd ?d)" by (rule hd_dropWhile)
  moreover have "hd (trim s @ ?post) = hd (trim s)" using assms by (rule hd_append2)
  ultimately show ?thesis using d by simp
qed

lemma trim_white:
  "list_all is_white (takeWhile is_white s)"
  "list_all is_white (rev (takeWhile is_white (rev (dropWhile is_white s))))"
  by (simp_all add: list_all_iff) (auto dest: set_takeWhileD)

text \<open>
  C7: every request that \<open>handleAnalysis\<close> sends is a POST to \<^verbatim>\<open>/analyze\<close> whose body
  holds the selected company as it is and the query text trimmed: the query is the
  trimmed text between a run of white space before and a run of white space after, and
  the trimmed text neither starts nor ends with white space.
\<close>

theorem analysis_request_contract:
  assumes "selectedCompany s \<noteq> []"
  shows "in_flight (handleAnalysis s)
           = in_flight s @ [\<lparr>flight_id = next_mutation s,
               request = \<lparr>http_method = ''POST'', url = ''/analyze'',
                 body = \<lparr>payload_company = selectedCompany s, payload_query = trim (query s)\<rparr>\<rparr>,
               left_with = None\<rparr>]
       \<and> (\<exists>pre post. query s = pre @ trim (query s) @ post
            \<and> list_all is_white pre \<and> list_all is_white post)
       \<and> (trim (query s) \<noteq> [] \<longrightarrow>
            \<not> is_white (hd (trim (query s))) \<and> \<not> is_white (last (trim (query s))))"
proof (intro conjI)
  show "in_flight (handleAnalysis s)
           = in_flight s @ [\<lparr>flight_id = next_mutation s,
               request = \<lparr>http_method = ''POST'', url = ''/analyze'',
                 body = \<lparr>payload_company = selectedCompany s, payload_query = trim (query s)\<rparr>\<rparr>,
               left_with = None\<rparr>]"
    using assms by (simp add: handleAnalysis_def mutate_def analyzeCompany_def)
  show "\<exists>pre post. query s = pre @ trim (query s) @ post
            \<and> list_all is_white pre \<and> list_all is_white post"
    using trim_split [of "query s"] trim_white [of "query s"] by blast
  show "trim (query s) \<noteq> [] \<longrightarrow>
            \<not> is_white (hd (trim (query s))) \<and> \<not> is_white (last (trim (query s)))"
    by (simp add: trim_hd trim_last)
qed

text \<open>
  C6: no request without a company. With an empty selection \<open>handleAnalysis\<close> shows the
  error toast and sends nothing; whenever it sends a request, a company is selected.
\<close>

theorem no_request_without_company:
  "(selectedCompany s = [] \<longrightarrow>
      handleAnalysis s
        = s\<lparr>page_toasts := page_toasts s @
             [\<lparr>kind = ToastError, text_parts = [Lit ''Please select a company''],
               duration = None, icon = None, style = []\<rparr>]\<rparr>
      \<and> in_flight (handleAnalysis s) = in_flight s)
   \<and> (in_flight (handleAnalysis s) \<noteq> in_flight s \<longrightarrow> selectedCompany s \<noteq> [])"
  by (simp add: handleAnalysis_def page_toast_def)


lemma is_white_examples:
  "is_white 32" "is_white 10" "is_white 8195" "\<not> is_white 69" "\<not> is_white 71"
  by (simp_all add: is_white_def)

theorem analysis_request_contract_witness:
  "selectedCompany (page_initial\<lparr>selectedCompany := [65, 99, 109, 101], query := [32, 69, 83, 71, 10]\<rparr>) \<noteq> []
   \<and> in_flight (handleAnalysis
        (page_initial\<lparr>selectedCompany := [65, 99, 109, 101], query := [32, 69, 83, 71, 10]\<rparr>))
       = [\<lparr>flight_id = 0,
           request = \<lparr>http_method = ''POST'', url = ''/analyze'',
             body = \<lparr>payload_company = [65, 99, 109, 101], payload_query = [69, 83, 71]\<rparr>\<rparr>,
           left_with = None\<rparr>]"
proof -
  have h: "selectedCompany
      (page_initial\<lparr>selectedCompany := [65, 99, 109, 101], query := [32, 69, 83, 71, 10]\<rparr>) \<noteq> []"
    by simp
  have t: "trim [32, 69, 83, 71, 10] = [69, 83, 71]"
    by (simp add: trim_def is_white_def)
  from analysis_request_contract [OF h] show ?thesis
    using h t by (simp add: page_initial_def)
qed

theorem no_request_without_company_witness:
  "selectedCompany page_initial = []
   \<and> in_flight (handleAnalysis page_initial) = []
   \<and> page_toasts (handleAnalysis page_initial)
       = [\<lparr>kind = ToastError, text_parts = [Lit ''Please select a company''],
            duration = None, icon = None, style = []\<rparr>]"
  using no_request_without_company [of page_initial] by (simp add: page_initial_def)





lemma single_flight_render [simp]: "single_flight (render s) = single_flight s"
  by (simp add: single_flight_def own_flights_def render_def)











section \<open>What the badge shows\<close>

lemma percent_in_confidence_child:
  "(\<exists>v. PercentSpan v \<in> set (confidence_child c)) \<longleftrightarrow> truthy c"
  by (cases c) auto

lemma percent_not_in_level_text: "PercentSpan v \<notin> set (level_text u)"
  by (cases u) auto

lemma badge_children:
  assumes "ContradictionBadge level c = Inr b"
  shows "\<exists>g u. children b = IconSpan g # level_text u
            @ confidence_child (if c = JUndefined then JNull else c)"
  using assms
  by (auto simp: ContradictionBadge_def Let_def split: sum.splits)

lemma badge_percent:
  assumes "ContradictionBadge level c = Inr b"
  shows "(\<exists>v. PercentSpan v \<in> set (children b)) \<longleftrightarrow> truthy c"
proof -
  from badge_children [OF assms] obtain g u where
    ch: "children b = IconSpan g # level_text u @ confidence_child (if c = JUndefined then JNull else c)"
    by blast
  have "(\<exists>v. PercentSpan v \<in> set (children b))
      \<longleftrightarrow> (\<exists>v. PercentSpan v \<in> set (confidence_child (if c = JUndefined then JNull else c)))"
    by (simp add: ch percent_not_in_level_text)
  also have "\<dots> \<longleftrightarrow> truthy (if c = JUndefined then JNull else c)"
    by (rule percent_in_confidence_child)
  also have "\<dots> \<longleftrightarrow> truthy c" by simp
  finally show ?thesis .
qed

lemma badge_missing_level:
  assumes "level = JNull \<or> level = JUndefined \<or> level = JStr []"
  shows "ContradictionBadge level c
     = Inr \<lparr>className = ''badge badge-gray'',
            children = IconSpan QuestionMark # TextNode ''UNKNOWN''
              # confidence_child (if c = JUndefined then JNull else c)\<rparr>"
  using assms
  by (auto simp: ContradictionBadge_def getIcon_def getBadgeClass_def toUpperCase_def Let_def)

lemma badge_other_level:
  assumes "s \<noteq> []"
    and "toUpperCase s \<notin> {''HIGH'', ''MEDIUM'', ''LOW'', ''NONE''}"
  shows "ContradictionBadge (JStr s) c
     = Inr \<lparr>className = ''badge badge-gray'',
            children = IconSpan QuestionMark # TextNode (toUpperCase s)
              # confidence_child (if c = JUndefined then JNull else c)\<rparr>"
proof -
  from assms(1) have "toUpperCase s \<noteq> []" by (simp add: toUpperCase_def)
  with assms(2) show ?thesis
    by (simp add: ContradictionBadge_def getIcon_def getBadgeClass_def Let_def)
qed

text \<open>
  C10, as amended: the badge shows the percentage exactly when the confidence is truthy,
  so there is none for \<^verbatim>\<open>null\<close> and none for 0. For a level that is \<^verbatim>\<open>null\<close>,
  \<^verbatim>\<open>undefined\<close> or the empty string the badge shows the text \<^verbatim>\<open>UNKNOWN\<close> with the gray
  class and the question mark. For any other text that is none of the four level names
  when upper-cased, it shows that text in upper case, with the gray class and the
  question mark.
\<close>

theorem badge_rendering:
  "(ContradictionBadge level c = Inr b \<longrightarrow>
      ((\<exists>v. PercentSpan v \<in> set (children b)) \<longleftrightarrow> truthy c)
      \<and> (c = JNull \<or> c = JNum 0 \<longrightarrow> (\<forall>v. PercentSpan v \<notin> set (children b))))
   \<and> (level = JNull \<or> level = JUndefined \<or> level = JStr [] \<longrightarrow>
        ContradictionBadge level c
          = Inr \<lparr>className = ''badge badge-gray'',
                 children = IconSpan QuestionMark # TextNode ''UNKNOWN''
                   # confidence_child (if c = JUndefined then JNull else c)\<rparr>)
   \<and> (is_ascii s \<and> s \<noteq> [] \<and> toUpperCase s \<notin> {''HIGH'', ''MEDIUM'', ''LOW'', ''NONE''} \<longrightarrow>
        ContradictionBadge (JStr s) c
          = Inr \<lparr>className = ''badge badge-gray'',
                 children = IconSpan QuestionMark # TextNode (toUpperCase s)
                   # confidence_child (if c = JUndefined then JNull else c)\<rparr>)"
proof (intro conjI impI)
  assume b: "ContradictionBadge level c = Inr b"
  from badge_percent [OF b] show "(\<exists>v. PercentSpan v \<in> set (children b)) \<longleftrightarrow> truthy c" .
  assume "c = JNull \<or> c = JNum 0"
  then have "\<not> truthy c" by auto
  with badge_percent [OF b] show "\<forall>v. PercentSpan v \<notin> set (children b)" by blast
next
  assume "level = JNull \<or> level = JUndefined \<or> level = JStr []"
  then show "ContradictionBadge level c
          = Inr \<lparr>className = ''badge badge-gray'',
                 children = IconSpan QuestionMark # TextNode ''UNKNOWN''
                   # confidence_child (if c = JUndefined then JNull else c)\<rparr>"
    by (rule badge_missing_level)
next
  assume "is_ascii s \<and> s \<noteq> [] \<and> toUpperCase s \<notin> {''HIGH'', ''MEDIUM'', ''LOW'', ''NONE''}"
  then show "ContradictionBadge (JStr s) c
          = Inr \<lparr>className = ''badge badge-gray'',
                 children = IconSpan QuestionMark # TextNode (toUpperCase s)
                   # confidence_child (if c = JUndefined then JNull else c)\<rparr>"
    by (simp add: badge_other_level)
qed

lemma upper_examples:
  "toUpperCase ''critical'' = ''CRITICAL''" "toUpperCase ''none'' = ''NONE''"
  "is_ascii ''critical''"
  by code_simp+

theorem badge_rendering_witness:
  "ContradictionBadge (JStr ''none'') (JNum 0)
     = Inr \<lparr>className = ''badge badge-none'',
            children = [IconSpan CheckMark, TextNode ''NONE'', NumberText (JNum 0)]\<rparr>
   \<and> \<not> truthy (JNum 0)
   \<and> (\<forall>v. PercentSpan v \<notin> set [IconSpan CheckMark, TextNode ''NONE'', NumberText (JNum 0)])
   \<and> ContradictionBadge JNull (JNum (17 / 20))
     = Inr \<lparr>className = ''badge badge-gray'',
            children = [IconSpan QuestionMark, TextNode ''UNKNOWN'', PercentSpan (JNum (17 / 20))]\<rparr>
   \<and> is_ascii ''critical'' \<and> toUpperCase ''critical'' \<notin> {''HIGH'', ''MEDIUM'', ''LOW'', ''NONE''}
   \<and> ContradictionBadge (JStr ''critical'') JNull
     = Inr \<lparr>className = ''badge badge-gray'',
            children = [IconSpan QuestionMark, TextNode ''CRITICAL'']\<rparr>"
proof -
  have n: "ContradictionBadge (JStr ''none'') (JNum 0)
     = Inr \<lparr>className = ''badge badge-none'',
            children = [IconSpan CheckMark, TextNode ''NONE'', NumberText (JNum 0)]\<rparr>"
    by (simp add: ContradictionBadge_def getIcon_def getBadgeClass_def upper_examples Let_def)
  have u: "is_ascii ''critical'' \<and> ''critical'' \<noteq> []
      \<and> toUpperCase ''critical'' \<notin> {''HIGH'', ''MEDIUM'', ''LOW'', ''NONE''}"
    by (simp add: upper_examples)
  from badge_rendering [of "JStr ''none''" "JNum 0"
      "\<lparr>className = ''badge badge-none'',
        children = [IconSpan CheckMark, TextNode ''NONE'', NumberText (JNum 0)]\<rparr>" "''critical''"]
    badge_rendering [of JNull "JNum (17 / 20)" _ "''critical''"]
    badge_rendering [of JNull JNull _ "''critical''"]
  show ?thesis using n u by (simp add: upper_examples)
qed

text \<open>
  A level that is not recognised is not shown as \<^verbatim>\<open>UNKNOWN\<close>: for \<^verbatim>\<open>critical\<close> the
  badge shows \<^verbatim>\<open>CRITICAL\<close>.
\<close>

theorem badge_unknown_counterexample:
  "ContradictionBadge (JStr ''critical'') JNull
     = Inr \<lparr>className = ''badge badge-gray'',
            children = [IconSpan QuestionMark, TextNode ''CRITICAL'']\<rparr>
   \<and> TextNode ''UNKNOWN'' \<notin> set [IconSpan QuestionMark, TextNode ''CRITICAL'']"
  by (simp add: ContradictionBadge_def getIcon_def getBadgeClass_def upper_examples Let_def)

lemma percent_examples: "percent (17 / 20) = 85" "percent (1 / 8) = 13"
  by code_simp+

section \<open>What the analyzer returns\<close>






lemma validate_error: "validate cfg c q now raw = Inl e \<Longrightarrow> e = GatewaySchemaInvalid"
  by (auto simp: validate_def Let_def split: option.splits if_splits)










lemma analyze_absorbs_gateway: "analyze known cfg c q ps arts primary now \<noteq> Inl (Gateway e)"
  by (simp add: analyze_def)

lemma validate_rejects_inconsistent:
  "validate example_config ''TechCorp'' None 7
     \<lparr>raw_level = ''HIGH'', raw_confidence = 0, raw_text = ''x'', raw_contradictions = []\<rparr>
     = Inl GatewaySchemaInvalid"
  by (simp add: validate_def parse_level_def well_formed_def example_config_def)

end
